theory Spec2Isabelle
  imports Complex_Main "HOL-Library.AList" "HOL-Library.Word"
begin

unbundle bit_operations_syntax

section \<open>Python values\<close>

text \<open>
  The relay handles decoded AIS sentences as Python dictionaries from field name to a
  dynamically typed value. The values that occur are modelled by one datatype. Floats
  are the finite ones, as real numbers. An enum member carries its \<open>name\<close>. A
  dictionary is an association list in insertion order; \<open>entry.get(key)\<close> reads the
  first binding of a key.
\<close>

type_synonym byte = "8 word"

datatype pyval =
    PNone
  | PBool bool
  | PInt int
  | PFloat real
  | PStr string
  | PBytes "byte list"
  | PEnum string
  | PList "pyval list"
  | PDict "(string \<times> pyval) list"

type_synonym pydict = "(string \<times> pyval) list"

text \<open>The exceptions that the modelled code raises. \<open>InvalidCoordinates lon lat\<close> is the
  \<open>Exception("Invalid coordinates [lon, lat]")\<close> of the coordinate extraction.\<close>

datatype error =
    InvalidCoordinates pyval pyval
  | TypeError
  | AttributeError
  | KeyError
  | IndexError
  | ValueError
  | ConnectionError
  | UnicodeEncodeError
  | QueueFull
  | SqlBindError
  | IntegrityError

text \<open>\<open>key in entry\<close>, \<open>entry.get(key)\<close>, \<open>entry[key] = v\<close> and \<open>del entry[key]\<close>.\<close>

definition dict_contains :: "pydict \<Rightarrow> string \<Rightarrow> bool" where
  "dict_contains d k = (k \<in> fst ` set d)"

definition dict_get :: "pydict \<Rightarrow> string \<Rightarrow> pyval" where
  "dict_get d k = (case map_of d k of None \<Rightarrow> PNone | Some v \<Rightarrow> v)"

definition dict_set :: "pydict \<Rightarrow> string \<Rightarrow> pyval \<Rightarrow> pydict" where
  "dict_set d k v = AList.update k v d"

definition dict_del :: "pydict \<Rightarrow> string \<Rightarrow> pydict" where
  "dict_del d k = AList.delete k d"

text \<open>\<open>isinstance(v, Enum)\<close>, \<open>isinstance(v, bytes)\<close> and \<open>isinstance(v, (int, float))\<close>;
  \<open>bool\<close> is a subclass of \<open>int\<close>.\<close>

fun is_enum_instance :: "pyval \<Rightarrow> bool" where
  "is_enum_instance (PEnum n) = True"
| "is_enum_instance v = False"

fun is_bytes :: "pyval \<Rightarrow> bool" where
  "is_bytes (PBytes bs) = True"
| "is_bytes v = False"

fun is_number :: "pyval \<Rightarrow> bool" where
  "is_number (PInt i) = True"
| "is_number (PFloat r) = True"
| "is_number (PBool b) = True"
| "is_number v = False"

text \<open>The \<open>name\<close> attribute, read only on enum members.\<close>

fun enum_name :: "pyval \<Rightarrow> pyval" where
  "enum_name (PEnum n) = PStr n"
| "enum_name v = v"

text \<open>\<open>int.from_bytes(value, "big")\<close>: the bytes as a big-endian unsigned number.\<close>

definition int_from_bytes_big :: "byte list \<Rightarrow> int" where
  "int_from_bytes_big bs = foldl (\<lambda>acc b. acc * 256 + uint b) 0 bs"

text \<open>\<open>str(value)\<close> of a bytes object is its literal: \<open>b'...'\<close> with the non-printable
  bytes escaped, in double quotes when the bytes hold a single quote and no double one.\<close>

definition hex_digit :: "nat \<Rightarrow> char" where
  "hex_digit n = ''0123456789abcdef'' ! (n mod 16)"

definition bytes_repr_char :: "char \<Rightarrow> byte \<Rightarrow> string" where
  "bytes_repr_char quote b =
     (let c = char_of (unat b) in
      if c = quote \<or> c = CHR 0x5C then [CHR 0x5C, c]
      else if b = 9 then [CHR 0x5C, CHR ''t'']
      else if b = 10 then [CHR 0x5C, CHR ''n'']
      else if b = 13 then [CHR 0x5C, CHR ''r'']
      else if b < 32 \<or> 127 \<le> b then
        [CHR 0x5C, CHR ''x'', hex_digit (unat b div 16), hex_digit (unat b)]
      else [c])"

definition bytes_repr :: "byte list \<Rightarrow> string" where
  "bytes_repr bs =
     (let quote = (if 39 \<in> set bs \<and> 34 \<notin> set bs then CHR 0x22 else CHR 0x27)
      in [CHR ''b'', quote] @ concat (map (bytes_repr_char quote) bs) @ [quote])"

section \<open>The normalizer\<close>

text \<open>\<open>decode_bytes\<close>, the local function of \<open>normalize_ais_message\<close>. Neither branch of
  its \<open>try\<close> can raise on a bytes object, so the fallback is never taken.\<close>

definition decode_bytes :: "pyval \<Rightarrow> string \<Rightarrow> pyval" where
  "decode_bytes v key =
     (case v of
        PBytes bs \<Rightarrow>
          (if key = ''spare_1'' \<or> key = ''spare_2'' then PInt (int_from_bytes_big bs)
           else PStr (bytes_repr bs))
      | _ \<Rightarrow> v)"

text \<open>The loop over \<open>list(entry.keys())\<close> that replaces enum members by their names.\<close>

definition enum_step :: "string \<Rightarrow> pydict \<Rightarrow> pydict" where
  "enum_step key entry =
     (if dict_contains entry key \<and> is_enum_instance (dict_get entry key)
      then dict_set entry key (enum_name (dict_get entry key))
      else entry)"

definition convert_enums :: "pydict \<Rightarrow> pydict" where
  "convert_enums entry = fold enum_step (map fst entry) entry"

text \<open>The fold of \<open>lat\<close> and \<open>lon\<close> into a GeoJSON point.\<close>

definition geo_point :: "pyval \<Rightarrow> pyval \<Rightarrow> pyval" where
  "geo_point lon lat = PDict [(''type'', PStr ''Point''), (''coordinates'', PList [lon, lat])]"

definition fold_location :: "pydict \<Rightarrow> pydict" where
  "fold_location entry =
     (if dict_contains entry ''lat'' \<and> dict_contains entry ''lon'' then
        (let lat = dict_get entry ''lat''; lon = dict_get entry ''lon'' in
         if is_number lat \<and> is_number lon
         then dict_del (dict_del (dict_set entry ''location'' (geo_point lon lat)) ''lat'') ''lon''
         else entry)
      else entry)"

text \<open>The loop over the three binary fields.\<close>

definition bin_step :: "string \<Rightarrow> pydict \<Rightarrow> pydict" where
  "bin_step bin_key entry =
     (if dict_contains entry bin_key
      then dict_set entry bin_key (decode_bytes (dict_get entry bin_key) bin_key)
      else entry)"

definition decode_binary :: "pydict \<Rightarrow> pydict" where
  "decode_binary entry = fold bin_step [''spare_1'', ''spare_2'', ''data''] entry"

definition normalize_ais_message :: "pydict \<Rightarrow> pydict" where
  "normalize_ais_message entry = decode_binary (fold_location (convert_enums entry))"

section \<open>Coordinate extraction\<close>

text \<open>Truth value of a Python object, as in \<open>if lon and lat\<close>. An enum member is true.\<close>

fun truthy :: "pyval \<Rightarrow> bool" where
  "truthy PNone = False"
| "truthy (PBool b) = b"
| "truthy (PInt i) = (i \<noteq> 0)"
| "truthy (PFloat r) = (r \<noteq> 0)"
| "truthy (PStr s) = (s \<noteq> [])"
| "truthy (PBytes bs) = (bs \<noteq> [])"
| "truthy (PEnum n) = True"
| "truthy (PList xs) = (xs \<noteq> [])"
| "truthy (PDict d) = (d \<noteq> [])"

text \<open>The number that an order comparison with a numeric constant reads; the comparison
  raises \<open>TypeError\<close> on every other value.\<close>

fun num_value :: "pyval \<Rightarrow> real option" where
  "num_value (PInt i) = Some (of_int i)"
| "num_value (PFloat r) = Some r"
| "num_value (PBool b) = Some (if b then 1 else 0)"
| "num_value v = None"

text \<open>\<open>lo <= v <= hi\<close>: a chained comparison, whose second half is not evaluated when the
  first is false.\<close>

definition between :: "real \<Rightarrow> pyval \<Rightarrow> real \<Rightarrow> error + bool" where
  "between lo v hi = (case num_value v of None \<Rightarrow> Inl TypeError | Some x \<Rightarrow> Inr (lo \<le> x \<and> x \<le> hi))"

definition is_valid_geo_point :: "pyval \<Rightarrow> pyval \<Rightarrow> error + bool" where
  "is_valid_geo_point lon lat =
     (if truthy lon \<and> truthy lat then
        (case between (- 180) lon 180 of
           Inl e \<Rightarrow> Inl e
         | Inr False \<Rightarrow> Inr False
         | Inr True \<Rightarrow> between (- 90) lat 90)
      else Inr True)"

text \<open>\<open>len(v)\<close> and \<open>v[i]\<close> for an index \<open>i\<close> that is a natural number. The keys of a
  dictionary are strings, so \<open>d[i]\<close> raises \<open>KeyError\<close>.\<close>

fun py_len :: "pyval \<Rightarrow> error + nat" where
  "py_len (PList xs) = Inr (length xs)"
| "py_len (PStr s) = Inr (length s)"
| "py_len (PBytes bs) = Inr (length bs)"
| "py_len (PDict d) = Inr (length d)"
| "py_len v = Inl TypeError"

fun py_item :: "pyval \<Rightarrow> nat \<Rightarrow> error + pyval" where
  "py_item (PList xs) i = (if i < length xs then Inr (xs ! i) else Inl IndexError)"
| "py_item (PStr s) i = (if i < length s then Inr (PStr [s ! i]) else Inl IndexError)"
| "py_item (PBytes bs) i = (if i < length bs then Inr (PInt (uint (bs ! i))) else Inl IndexError)"
| "py_item (PDict d) i = Inl KeyError"
| "py_item v i = Inl TypeError"

text \<open>\<open>coords[i] if len(coords) > i else None\<close>.\<close>

definition coord_at :: "pyval \<Rightarrow> nat \<Rightarrow> error + pyval" where
  "coord_at coords i =
     (case py_len coords of
        Inl e \<Rightarrow> Inl e
      | Inr n \<Rightarrow> if n > i then py_item coords i else Inr PNone)"

definition dict_get_default :: "pydict \<Rightarrow> string \<Rightarrow> pyval \<Rightarrow> pyval" where
  "dict_get_default d k dflt = (case map_of d k of None \<Rightarrow> dflt | Some v \<Rightarrow> v)"

text \<open>The first half of \<open>_extract_coordinates\<close>: the pair \<open>(lon, lat)\<close> read from the
  report. \<open>location.get\<close> raises \<open>AttributeError\<close> when the location is not a dictionary.\<close>

definition read_coordinates :: "pydict \<Rightarrow> error + (pyval \<times> pyval)" where
  "read_coordinates decoded =
     (case dict_get_default decoded ''location'' (PDict []) of
        PDict location \<Rightarrow>
          (let coords = dict_get_default location ''coordinates'' (PList [PNone, PNone]) in
           case coord_at coords 0 of
             Inl e \<Rightarrow> Inl e
           | Inr lon \<Rightarrow>
               (case coord_at coords 1 of
                  Inl e \<Rightarrow> Inl e
                | Inr lat \<Rightarrow> Inr (lon, lat)))
      | _ \<Rightarrow> Inl AttributeError)"

text \<open>\<open>_extract_coordinates\<close>: the pair is validated only when both components are not
  \<open>None\<close>.\<close>

definition extract_coordinates :: "pydict \<Rightarrow> error + (pyval \<times> pyval)" where
  "extract_coordinates decoded =
     (case read_coordinates decoded of
        Inl e \<Rightarrow> Inl e
      | Inr (lon, lat) \<Rightarrow>
          if lon \<noteq> PNone \<and> lat \<noteq> PNone then
            (case is_valid_geo_point lon lat of
               Inl e \<Rightarrow> Inl e
             | Inr ok \<Rightarrow> if \<not> ok then Inl (InvalidCoordinates lon lat) else Inr (lon, lat))
          else Inr (lon, lat))"

section \<open>The storage gateway\<close>

text \<open>
  \<open>DatabaseManager\<close> keeps two SQLite tables. A table is the list of its rows in insertion
  order, a column value is the Python value that was bound (SQLite's conversion of a value
  to the column's type is not modelled, so an MMSI is expected with one Python type
  throughout), and \<open>datetime('now')\<close> is the argument \<open>now\<close>. Every method opens its own
  connection and commits when it leaves it, so a method is one step on the database.
\<close>

record vessel_row =
  v_rowid :: nat
  v_mmsi :: pyval
  v_imo :: pyval
  v_ship_name :: pyval
  v_ship_type :: pyval
  v_created_at :: int
  v_updated_at :: int

record state_row =
  s_id :: nat
  s_vessel_mmsi :: pyval
  s_latitude :: pyval
  s_longitude :: pyval
  s_speed :: pyval
  s_heading :: pyval
  s_course :: pyval
  s_draught :: pyval
  s_status :: pyval
  s_call_sign :: pyval
  s_destination :: pyval
  s_received_at :: int
  s_updated_at :: int

text \<open>\<open>state_seq\<close> is the counter behind \<open>AUTOINCREMENT\<close>: the largest id handed out.\<close>

record database =
  vessels :: "vessel_row list"
  vessel_states :: "state_row list"
  state_seq :: nat

definition empty_db :: database where
  "empty_db = \<lparr>vessels = [], vessel_states = [], state_seq = 0\<rparr>"

text \<open>The keyword arguments of \<open>create_vessel\<close> and of \<open>create_vessel_state\<close>.\<close>

record vessel =
  mmsi :: pyval
  imo :: pyval
  ship_name :: pyval
  ship_type :: pyval

record vessel_state =
  vessel_mmsi :: pyval
  latitude :: pyval
  longitude :: pyval
  speed :: pyval
  heading :: pyval
  course :: pyval
  draught :: pyval
  status :: pyval
  call_sign :: pyval
  destination :: pyval

datatype db_result = LastRowId nat | RowsChanged bool

text \<open>The values that \<open>sqlite3\<close> binds to a \<open>?\<close>: \<open>None\<close>, integers of 64 bits, floats,
  strings and bytes. Binding anything else raises.\<close>

fun bindable :: "pyval \<Rightarrow> bool" where
  "bindable PNone = True"
| "bindable (PBool b) = True"
| "bindable (PInt i) = (- (2 ^ 63) \<le> i \<and> i < 2 ^ 63)"
| "bindable (PFloat r) = True"
| "bindable (PStr s) = True"
| "bindable (PBytes bs) = True"
| "bindable v = False"

text \<open>\<open>column = ?\<close> in a \<open>WHERE\<close> clause: never true of \<open>NULL\<close>.\<close>

definition sql_eq :: "pyval \<Rightarrow> pyval \<Rightarrow> bool" where
  "sql_eq a b = (a \<noteq> PNone \<and> b \<noteq> PNone \<and> a = b)"

definition get_vessel :: "pyval \<Rightarrow> database \<Rightarrow> error + vessel_row option" where
  "get_vessel m db =
     (if \<not> bindable m then Inl SqlBindError
      else Inr (find (\<lambda>r. sql_eq (v_mmsi r) m) (vessels db)))"

text \<open>\<open>update_vessel\<close> sets the columns whose argument is not \<open>None\<close>, and \<open>updated_at\<close>,
  in the rows of that MMSI; it returns whether a row was changed.\<close>

definition update_vessel :: "int \<Rightarrow> vessel \<Rightarrow> database \<Rightarrow> (error + bool) \<times> database" where
  "update_vessel now v db =
     (if \<not> (bindable (imo v) \<and> bindable (ship_name v) \<and> bindable (ship_type v) \<and> bindable (mmsi v))
      then (Inl SqlBindError, db)
      else
        (let hit = (\<lambda>r. sql_eq (v_mmsi r) (mmsi v));
             upd = (\<lambda>r. if hit r then
                      r\<lparr>v_imo := (if imo v \<noteq> PNone then imo v else v_imo r),
                        v_ship_name := (if ship_name v \<noteq> PNone then ship_name v else v_ship_name r),
                        v_ship_type := (if ship_type v \<noteq> PNone then ship_type v else v_ship_type r),
                        v_updated_at := now\<rparr>
                    else r)
         in (Inr (list_ex hit (vessels db)), db\<lparr>vessels := map upd (vessels db)\<rparr>)))"

text \<open>The \<open>INSERT INTO vessels\<close>. The primary key rejects a second row of an MMSI that is
  not \<open>NULL\<close>; the new row gets the largest rowid of the table plus one.\<close>

definition insert_vessel :: "int \<Rightarrow> vessel \<Rightarrow> database \<Rightarrow> (error + db_result) \<times> database" where
  "insert_vessel now v db =
     (if \<not> (bindable (mmsi v) \<and> bindable (imo v) \<and> bindable (ship_name v) \<and> bindable (ship_type v))
      then (Inl SqlBindError, db)
      else if list_ex (\<lambda>r. sql_eq (v_mmsi r) (mmsi v)) (vessels db) then (Inl IntegrityError, db)
      else
        (let rid = Suc (foldr max (map v_rowid (vessels db)) 0);
             row = \<lparr>v_rowid = rid, v_mmsi = mmsi v, v_imo = imo v, v_ship_name = ship_name v,
                    v_ship_type = ship_type v, v_created_at = now, v_updated_at = now\<rparr>
         in (Inr (LastRowId rid), db\<lparr>vessels := vessels db @ [row]\<rparr>)))"

definition create_vessel :: "int \<Rightarrow> vessel \<Rightarrow> database \<Rightarrow> (error + db_result) \<times> database" where
  "create_vessel now v db =
     (case get_vessel (mmsi v) db of
        Inl e \<Rightarrow> (Inl e, db)
      | Inr (Some r) \<Rightarrow>
          (case update_vessel now v db of
             (Inl e, db') \<Rightarrow> (Inl e, db')
           | (Inr b, db') \<Rightarrow> (Inr (RowsChanged b), db'))
      | Inr None \<Rightarrow> insert_vessel now v db)"

text \<open>The \<open>INSERT INTO vessel_states\<close>. Foreign keys are switched on only in the connection
  that \<open>_apply_pragma\<close> opens, so this insertion checks none.\<close>

definition insert_vessel_state ::
  "int \<Rightarrow> vessel_state \<Rightarrow> database \<Rightarrow> (error + db_result) \<times> database" where
  "insert_vessel_state now vs db =
     (if \<not> list_all bindable [vessel_mmsi vs, latitude vs, longitude vs, speed vs, heading vs,
            course vs, draught vs, status vs, call_sign vs, destination vs]
      then (Inl SqlBindError, db)
      else
        (let sid = Suc (state_seq db);
             row = \<lparr>s_id = sid, s_vessel_mmsi = vessel_mmsi vs, s_latitude = latitude vs,
                    s_longitude = longitude vs, s_speed = speed vs, s_heading = heading vs,
                    s_course = course vs, s_draught = draught vs, s_status = status vs,
                    s_call_sign = call_sign vs, s_destination = destination vs,
                    s_received_at = now, s_updated_at = now\<rparr>
         in (Inr (LastRowId sid),
             db\<lparr>vessel_states := vessel_states db @ [row], state_seq := sid\<rparr>)))"

text \<open>The first two lines of \<open>create_vessel_state\<close>: the vessel is created when
  \<open>get_vessel\<close> finds none.\<close>

definition ensure_vessel :: "int \<Rightarrow> pyval \<Rightarrow> database \<Rightarrow> (error + unit) \<times> database" where
  "ensure_vessel now m db =
     (case get_vessel m db of
        Inl e \<Rightarrow> (Inl e, db)
      | Inr (Some r) \<Rightarrow> (Inr (), db)
      | Inr None \<Rightarrow>
          (case create_vessel now \<lparr>mmsi = m, imo = PNone, ship_name = PNone, ship_type = PNone\<rparr> db of
             (Inl e, db') \<Rightarrow> (Inl e, db')
           | (Inr r, db') \<Rightarrow> (Inr (), db')))"

definition create_vessel_state ::
  "int \<Rightarrow> vessel_state \<Rightarrow> database \<Rightarrow> (error + db_result) \<times> database" where
  "create_vessel_state now vs db =
     (case ensure_vessel now (vessel_mmsi vs) db of
        (Inl e, db') \<Rightarrow> (Inl e, db')
      | (Inr u, db') \<Rightarrow> insert_vessel_state now vs db')"

text \<open>Referential integrity: every row of \<open>vessel_states\<close> carries the MMSI of a row of
  \<open>vessels\<close>.\<close>

definition references_ok :: "database \<Rightarrow> bool" where
  "references_ok db =
     list_all (\<lambda>s. list_ex (\<lambda>r. v_mmsi r = s_vessel_mmsi s) (vessels db)) (vessel_states db)"

section \<open>Persisting one report\<close>

definition extract_vessel_data :: "pydict \<Rightarrow> vessel" where
  "extract_vessel_data decoded =
     \<lparr>mmsi = dict_get decoded ''mmsi'', imo = dict_get decoded ''imo'',
      ship_name = dict_get decoded ''shipname'', ship_type = dict_get decoded ''ship_type''\<rparr>"

text \<open>\<open>_extract_vessel_state\<close>, with the assignment of \<open>vessel_mmsi\<close> that follows it.\<close>

definition extract_vessel_state :: "pydict \<Rightarrow> pyval \<Rightarrow> pyval \<Rightarrow> pyval \<Rightarrow> vessel_state" where
  "extract_vessel_state decoded lon lat m =
     \<lparr>vessel_mmsi = m, latitude = lat, longitude = lon, speed = dict_get decoded ''speed'',
      heading = dict_get decoded ''heading'', course = dict_get decoded ''course'',
      draught = dict_get decoded ''draught'', status = dict_get decoded ''status'',
      call_sign = dict_get decoded ''callsign'', destination = dict_get decoded ''destination''\<rparr>"

text \<open>\<open>process_ais_message\<close> returns whether it raised, the calls it made on the storage
  gateway, in order, and the database it leaves.\<close>

datatype gateway_call = CreateVessel vessel | CreateVesselState vessel_state

definition process_ais_message ::
  "int \<Rightarrow> pydict \<Rightarrow> database \<Rightarrow> (error + unit) \<times> gateway_call list \<times> database" where
  "process_ais_message now decoded_normalized db =
     (case extract_coordinates decoded_normalized of
        Inl e \<Rightarrow> (Inl e, [], db)
      | Inr (lon, lat) \<Rightarrow>
          (let v = extract_vessel_data decoded_normalized;
               vs = extract_vessel_state decoded_normalized lon lat (mmsi v)
           in case create_vessel now v db of
                (Inl e, db1) \<Rightarrow> (Inl e, [CreateVessel v], db1)
              | (Inr r, db1) \<Rightarrow>
                  (case create_vessel_state now vs db1 of
                     (Inl e, db2) \<Rightarrow> (Inl e, [CreateVessel v, CreateVesselState vs], db2)
                   | (Inr r', db2) \<Rightarrow> (Inr (), [CreateVessel v, CreateVesselState vs], db2))))"

section \<open>The decoupling queue and its workers\<close>

text \<open>
  \<open>asyncio.Queue(maxsize)\<close>: the items in arrival order. A queue whose \<open>maxsize\<close> is not
  positive is never full. \<open>put_nowait\<close> returns at once, with \<open>QueueFull\<close> on a full queue.
\<close>

record 'a queue =
  items :: "'a list"
  maxsize :: int

definition full :: "'a queue \<Rightarrow> bool" where
  "full q = (if maxsize q \<le> 0 then False else maxsize q \<le> int (length (items q)))"

definition put_nowait :: "'a \<Rightarrow> 'a queue \<Rightarrow> error + 'a queue" where
  "put_nowait x q = (if full q then Inl QueueFull else Inr (q\<lparr>items := items q @ [x]\<rparr>))"

text \<open>The lines that the pipeline logs.\<close>

datatype log_entry =
    DbQueueFullDropping
  | DbWorkerError error

text \<open>The attributes of \<open>AISRelayServer\<close> that ingestion and the workers share.\<close>

record pipeline =
  database :: database
  db_queue :: "pydict queue"
  logger :: "log_entry list"

text \<open>The \<open>try\<close> of \<open>read_ais_data\<close> that hands a normalized report to the queue: on
  \<open>QueueFull\<close> a warning is logged and the report is gone.\<close>

definition enqueue_report :: "pydict \<Rightarrow> pipeline \<Rightarrow> pipeline" where
  "enqueue_report decoded_normalized st =
     (case put_nowait decoded_normalized (db_queue st) of
        Inl e \<Rightarrow> st\<lparr>logger := logger st @ [DbQueueFullDropping]\<rparr>
      | Inr q \<Rightarrow> st\<lparr>db_queue := q\<rparr>)"

text \<open>One round of the loop of \<open>db_worker\<close>, at the time \<open>now\<close>: \<open>None\<close> when the queue is
  empty and the worker is suspended in \<open>get\<close>; otherwise the gateway calls of the round
  and the new state. An exception of \<open>process_ais_message\<close> is logged and the loop goes on.\<close>

definition db_worker_step :: "int \<Rightarrow> pipeline \<Rightarrow> (gateway_call list \<times> pipeline) option" where
  "db_worker_step now st =
     (case items (db_queue st) of
        [] \<Rightarrow> None
      | message # rest \<Rightarrow>
          (case process_ais_message now message (database st) of
             (r, calls, db') \<Rightarrow>
               Some (calls,
                 st\<lparr>db_queue := (db_queue st)\<lparr>items := rest\<rparr>, database := db',
                    logger := (case r of Inl e \<Rightarrow> logger st @ [DbWorkerError e] | Inr u \<Rightarrow> logger st)\<rparr>)))"

text \<open>The worker loop over the rounds that start at the given times, until the queue is
  empty: all the gateway calls made, in order, and the final state.\<close>

fun db_worker :: "int list \<Rightarrow> pipeline \<Rightarrow> gateway_call list \<times> pipeline" where
  "db_worker [] st = ([], st)"
| "db_worker (now # ticks) st =
     (case db_worker_step now st of
        None \<Rightarrow> ([], st)
      | Some (calls, st') \<Rightarrow>
          (case db_worker ticks st' of (calls', st'') \<Rightarrow> (calls @ calls', st'')))"

section \<open>The structured broadcast\<close>

text \<open>\<open>GeographicBounds\<close>: four floats, and \<open>contains(lat, lon)\<close>, two chained comparisons
  joined by \<open>and\<close>. A comparison with a value that is not a number raises \<open>TypeError\<close>.\<close>

record GeographicBounds =
  min_lat :: real
  max_lat :: real
  min_lon :: real
  max_lon :: real

definition bounds_contains :: "GeographicBounds \<Rightarrow> pyval \<Rightarrow> pyval \<Rightarrow> error + bool" where
  "bounds_contains b lat lon =
     (case between (min_lat b) lat (max_lat b) of
        Inl e \<Rightarrow> Inl e
      | Inr False \<Rightarrow> Inr False
      | Inr True \<Rightarrow> between (min_lon b) lon (max_lon b))"

text \<open>The elements that iterating over a value yields, and the unpacking
  \<open>lon, lat = v\<close>, which raises \<open>ValueError\<close> unless there are exactly two.\<close>

fun py_iter :: "pyval \<Rightarrow> error + pyval list" where
  "py_iter (PList xs) = Inr xs"
| "py_iter (PStr s) = Inr (map (\<lambda>c. PStr [c]) s)"
| "py_iter (PBytes bs) = Inr (map (\<lambda>b. PInt (uint b)) bs)"
| "py_iter (PDict d) = Inr (map (\<lambda>kv. PStr (fst kv)) d)"
| "py_iter v = Inl TypeError"

definition unpack2 :: "pyval \<Rightarrow> error + (pyval \<times> pyval)" where
  "unpack2 v =
     (case py_iter v of
        Inl e \<Rightarrow> Inl e
      | Inr xs \<Rightarrow> (case xs of [a, b] \<Rightarrow> Inr (a, b) | _ \<Rightarrow> Inl ValueError))"

text \<open>The geographic filter of \<open>broadcast_ws\<close> for one subscriber: whether the message is
  to be sent. \<open>loc["coordinates"]\<close> raises \<open>KeyError\<close> on a dictionary without that key and
  \<open>TypeError\<close> on every value that is not a dictionary.\<close>

definition ws_filter :: "GeographicBounds option \<Rightarrow> pydict \<Rightarrow> error + bool" where
  "ws_filter bounds message =
     (case bounds of
        None \<Rightarrow> Inr True
      | Some b \<Rightarrow>
          (let loc = dict_get message ''location'' in
           if \<not> truthy loc then Inr False
           else
             (case loc of
                PDict d \<Rightarrow>
                  (case map_of d ''coordinates'' of
                     None \<Rightarrow> Inl KeyError
                   | Some c \<Rightarrow>
                       (case unpack2 c of
                          Inl e \<Rightarrow> Inl e
                        | Inr (lon, lat) \<Rightarrow> bounds_contains b lat lon))
              | _ \<Rightarrow> Inl TypeError)))"

text \<open>One round of the loop over \<open>ws_clients.items()\<close>. Whether \<open>send_json\<close> succeeds is
  for the peer and the network to decide: \<open>send_ok\<close>.\<close>

datatype ws_outcome = Skipped | SendOk | SendFailed | FilterRaised error

definition ws_round ::
  "('w \<Rightarrow> pydict \<Rightarrow> bool) \<Rightarrow> pydict \<Rightarrow> 'w \<times> GeographicBounds option \<Rightarrow> ws_outcome" where
  "ws_round send_ok message client =
     (case ws_filter (snd client) message of
        Inl e \<Rightarrow> FilterRaised e
      | Inr False \<Rightarrow> Skipped
      | Inr True \<Rightarrow> if send_ok (fst client) message then SendOk else SendFailed)"

text \<open>\<open>broadcast_ws\<close> returns the subscribers for which \<open>send_json(message)\<close> was called, in
  order, and the registry without the subscribers whose round raised.\<close>

definition broadcast_ws ::
  "('w \<Rightarrow> pydict \<Rightarrow> bool) \<Rightarrow> ('w \<times> GeographicBounds option) list \<Rightarrow> pydict \<Rightarrow>
   'w list \<times> ('w \<times> GeographicBounds option) list" where
  "broadcast_ws send_ok ws_clients message =
     (let sent = map fst (filter (\<lambda>c. ws_round send_ok message c \<in> {SendOk, SendFailed}) ws_clients);
          dead = map fst (filter (\<lambda>c. ws_round send_ok message c \<notin> {Skipped, SendOk}) ws_clients)
      in (sent, filter (\<lambda>c. fst c \<notin> set dead) ws_clients))"

section \<open>Storage rotation\<close>

text \<open>
  The part of \<open>AISRelayServer\<close> that rotation touches: the database directory, the paths
  of the live database and of the snapshot, and the files of the directory, each a name
  with its modification time in seconds. The directory exists (it is made at start-up) and
  its entries are regular files, so neither \<open>stat\<close> nor \<open>unlink\<close> raises. The process log
  is one more file, known by whether it exists.
\<close>

record storage =
  database_url :: string
  LIVE_DB :: string
  SNAPSHOT_DB :: string
  files :: "(string \<times> real) list"
  log_file_exists :: bool

definition path_join :: "string \<Rightarrow> string \<Rightarrow> string" where
  "path_join dir name = dir @ ''/'' @ name"

text \<open>\<open>get_new_db_name\<close>, from today's date as \<open>strftime("%Y-%m-%d")\<close> prints it and the
  text of a fresh \<open>uuid4\<close>.\<close>

definition get_new_db_name :: "string \<Rightarrow> string \<Rightarrow> string" where
  "get_new_db_name date_str uuid = date_str @ ''_'' @ take 8 uuid @ ''_ais_db.db''"

text \<open>\<open>reset_db\<close> points the live handle at a new name; \<open>init_db\<close> then creates the file
  when the directory has none of that name.\<close>

definition reset_db :: "string \<Rightarrow> string \<Rightarrow> real \<Rightarrow> storage \<Rightarrow> storage" where
  "reset_db date_str uuid now st =
     (let name = get_new_db_name date_str uuid in
      st\<lparr>LIVE_DB := path_join (database_url st) name,
         files := (if name \<in> fst ` set (files st) then files st else files st @ [(name, now)])\<rparr>)"

definition delete_log_file :: "storage \<Rightarrow> storage" where
  "delete_log_file st = st\<lparr>log_file_exists := False\<rparr>"

text \<open>A name that the pattern \<open>*.db\<close> matches.\<close>

definition is_db_file :: "string \<Rightarrow> bool" where
  "is_db_file name = (3 \<le> length name \<and> drop (length name - 3) name = ''.db'')"

definition week_seconds :: real where
  "week_seconds = 7 * 24 * 60 * 60"

text \<open>The test of the loop of \<open>delete_old_database\<close> on one file: it is unlinked.\<close>

definition is_deleted :: "storage \<Rightarrow> real \<Rightarrow> int \<Rightarrow> string \<times> real \<Rightarrow> bool" where
  "is_deleted st now weeks f =
     (let cutoff_time = now - of_int weeks * week_seconds;
          db_file = path_join (database_url st) (fst f)
      in is_db_file (fst f) \<and> \<not> (db_file = LIVE_DB st \<or> db_file = SNAPSHOT_DB st) \<and>
         snd f < cutoff_time)"

definition delete_old_database :: "real \<Rightarrow> int \<Rightarrow> storage \<Rightarrow> storage" where
  "delete_old_database now weeks st =
     st\<lparr>files := filter (\<lambda>f. \<not> is_deleted st now weeks f) (files st)\<rparr>"

text \<open>The rotation step \<open>reset_db_on_new_day\<close>.\<close>

definition reset_db_on_new_day :: "string \<Rightarrow> string \<Rightarrow> real \<Rightarrow> storage \<Rightarrow> storage" where
  "reset_db_on_new_day date_str uuid now st =
     delete_old_database now 1 (delete_log_file (reset_db date_str uuid now st))"

section \<open>Properties of the normalizer\<close>

lemma contains_map_of: "dict_contains d k \<longleftrightarrow> map_of d k \<noteq> None"
  by (simp add: dict_contains_def map_of_eq_None_iff)

lemma map_of_dict_set: "map_of (dict_set d k v) k' = (if k' = k then Some v else map_of d k')"
  by (simp add: dict_set_def update_conv')

lemma map_of_dict_del: "map_of (dict_del d k) k' = (if k' = k then None else map_of d k')"
  by (simp add: dict_del_def delete_conv')

lemma enum_name_idem: "enum_name (enum_name v) = enum_name v"
  by (cases v) simp_all

lemma not_enum_enum_name: "\<not> is_enum_instance (enum_name v)"
  by (cases v) simp_all

lemma enum_name_id: "\<not> is_enum_instance v \<Longrightarrow> enum_name v = v"
  by (cases v) simp_all

lemma is_number_enum_name: "is_number (enum_name v) = is_number v"
  by (cases v) simp_all

text \<open>One round of the enum loop acts on the lookup function at its key only.\<close>

lemma map_of_enum_step:
  "map_of (enum_step key e) k = (if k = key then map_option enum_name (map_of e k) else map_of e k)"
  by (auto simp: enum_step_def dict_set_def dict_get_def contains_map_of update_conv' enum_name_id
      split: option.splits)

lemma keys_enum_step: "map fst (enum_step key e) = map fst e"
  by (auto simp: enum_step_def dict_set_def dict_contains_def update_keys)

lemma map_of_fold_enum_step:
  "map_of (fold enum_step ks e) k =
     (if k \<in> set ks then map_option enum_name (map_of e k) else map_of e k)"
  by (induction ks arbitrary: e)
     (auto simp: map_of_enum_step option.map_comp comp_def enum_name_idem)

lemma map_of_convert_enums: "map_of (convert_enums e) k = map_option enum_name (map_of e k)"
proof (cases "k \<in> set (map fst e)")
  case True
  then show ?thesis by (simp add: convert_enums_def map_of_fold_enum_step)
next
  case False
  then have "map_of e k = None" by (simp add: map_of_eq_None_iff)
  with False show ?thesis by (simp add: convert_enums_def map_of_fold_enum_step)
qed

lemma keys_fold_enum_step: "map fst (fold enum_step ks e) = map fst e"
  by (induction ks arbitrary: e) (simp_all add: keys_enum_step)

lemma keys_convert_enums: "map fst (convert_enums e) = map fst e"
  by (simp add: convert_enums_def keys_fold_enum_step)

lemma dict_get_convert_enums: "dict_get (convert_enums e) k = enum_name (dict_get e k)"
  by (simp add: dict_get_def map_of_convert_enums split: option.splits)

lemma fold_enum_step_id:
  "(\<And>k. \<not> is_enum_instance (dict_get d k)) \<Longrightarrow> fold enum_step ks d = d"
  by (induction ks) (simp_all add: enum_step_def)

lemma convert_enums_id: "(\<And>k. \<not> is_enum_instance (dict_get d k)) \<Longrightarrow> convert_enums d = d"
  by (simp add: convert_enums_def fold_enum_step_id)

lemma map_of_bin_step:
  "map_of (bin_step key e) k =
     (if k = key then map_option (\<lambda>v. decode_bytes v key) (map_of e k) else map_of e k)"
  by (auto simp: bin_step_def map_of_dict_set dict_get_def contains_map_of split: option.splits)

lemma map_of_decode_binary:
  "map_of (decode_binary e) k =
     (if k \<in> {''spare_1'', ''spare_2'', ''data''}
      then map_option (\<lambda>v. decode_bytes v k) (map_of e k) else map_of e k)"
  by (simp add: decode_binary_def map_of_bin_step)

lemma map_of_fold_location:
  "map_of (fold_location e) k =
     (if is_number (dict_get e ''lat'') \<and> is_number (dict_get e ''lon'') then
        (if k = ''lat'' \<or> k = ''lon'' then None
         else if k = ''location'' then Some (geo_point (dict_get e ''lon'') (dict_get e ''lat''))
         else map_of e k)
      else map_of e k)"
  by (auto simp: fold_location_def Let_def map_of_dict_set map_of_dict_del contains_map_of
      dict_get_def split: option.splits)

lemma not_bytes_decode_bytes: "\<not> is_bytes (decode_bytes v k)"
  by (cases v) (simp_all add: decode_bytes_def)

lemma decode_bytes_id: "\<not> is_bytes v \<Longrightarrow> decode_bytes v k = v"
  by (cases v) (simp_all add: decode_bytes_def)

lemma not_enum_decode_bytes: "\<not> is_enum_instance v \<Longrightarrow> \<not> is_enum_instance (decode_bytes v k)"
  by (cases v) (simp_all add: decode_bytes_def)

lemma bin_step_id: "\<not> is_bytes (dict_get d k) \<Longrightarrow> bin_step k d = d"
  by (auto simp: bin_step_def dict_set_def dict_get_def contains_map_of decode_bytes_id
      intro!: update_triv split: option.splits)

lemma decode_binary_id:
  "(\<And>k. k \<in> {''spare_1'', ''spare_2'', ''data''} \<Longrightarrow> \<not> is_bytes (dict_get d k)) \<Longrightarrow>
   decode_binary d = d"
  by (simp add: decode_binary_def bin_step_id)

lemma fold_location_id:
  "\<not> (is_number (dict_get d ''lat'') \<and> is_number (dict_get d ''lon'')) \<Longrightarrow> fold_location d = d"
  by (auto simp: fold_location_def Let_def)

text \<open>What a pass leaves behind: no enum member, no numeric \<open>lat\<close>/\<open>lon\<close> pair, no bytes
  under the three binary keys.\<close>

lemma dict_get_normalize_not_enum: "\<not> is_enum_instance (dict_get (normalize_ais_message e) k)"
  by (auto simp: normalize_ais_message_def dict_get_def map_of_decode_binary map_of_fold_location
      map_of_convert_enums geo_point_def not_enum_enum_name not_enum_decode_bytes
      split: option.splits if_splits)

lemma dict_get_normalize_latlon:
  "\<not> (is_number (dict_get (normalize_ais_message e) ''lat'') \<and>
       is_number (dict_get (normalize_ais_message e) ''lon''))"
  by (auto simp: normalize_ais_message_def dict_get_def map_of_decode_binary map_of_fold_location
      split: option.splits if_splits)

lemma dict_get_normalize_not_bytes:
  "k \<in> {''spare_1'', ''spare_2'', ''data''} \<Longrightarrow>
   \<not> is_bytes (dict_get (normalize_ais_message e) k)"
  by (auto simp: normalize_ais_message_def dict_get_def map_of_decode_binary not_bytes_decode_bytes
      split: option.splits)

lemma distinct_fold_location: "distinct (map fst e) \<Longrightarrow> distinct (map fst (fold_location e))"
  by (simp add: fold_location_def Let_def dict_set_def dict_del_def distinct_update distinct_delete)

lemma distinct_bin_step: "distinct (map fst e) \<Longrightarrow> distinct (map fst (bin_step k e))"
  by (simp add: bin_step_def dict_set_def distinct_update)

lemma distinct_decode_binary: "distinct (map fst e) \<Longrightarrow> distinct (map fst (decode_binary e))"
  by (simp add: decode_binary_def distinct_bin_step)

lemma distinct_normalize:
  "distinct (map fst e) \<Longrightarrow> distinct (map fst (normalize_ais_message e))"
  by (simp add: normalize_ais_message_def distinct_decode_binary distinct_fold_location
      keys_convert_enums)

lemma map_of_normalize:
  "map_of (normalize_ais_message e) k =
     (let m = (if is_number (dict_get e ''lat'') \<and> is_number (dict_get e ''lon'') then
                 (if k = ''lat'' \<or> k = ''lon'' then None
                  else if k = ''location''
                    then Some (geo_point (dict_get e ''lon'') (dict_get e ''lat''))
                  else map_option enum_name (map_of e k))
               else map_option enum_name (map_of e k))
      in if k \<in> {''spare_1'', ''spare_2'', ''data''}
         then map_option (\<lambda>v. decode_bytes v k) m else m)"
proof -
  have "is_number (dict_get e k') \<Longrightarrow> enum_name (dict_get e k') = dict_get e k'" for k'
    by (cases "dict_get e k'") simp_all
  then show ?thesis
    by (auto simp: normalize_ais_message_def map_of_decode_binary map_of_fold_location
        map_of_convert_enums dict_get_convert_enums is_number_enum_name Let_def)
qed

text \<open>
  Claim C6. For every decoded entry whose \<open>lat\<close> and \<open>lon\<close> are both numeric, the output
  of the normalizer has the field \<open>location\<close>, a point with coordinates \<open>[lon, lat]\<close>, and
  has neither a \<open>lat\<close> nor a \<open>lon\<close> field. When they are not both numeric nothing is
  folded: \<open>lat\<close>, \<open>lon\<close> and \<open>location\<close> are those of the entry, enum members named. The
  keys of the output are distinct when those of the entry are, so the point is a single field.
\<close>

theorem normalize_location_fold:
  "(is_number (dict_get entry ''lat'') \<and> is_number (dict_get entry ''lon'') \<longrightarrow>
      map_of (normalize_ais_message entry) ''location'' =
        Some (geo_point (dict_get entry ''lon'') (dict_get entry ''lat'')) \<and>
      \<not> dict_contains (normalize_ais_message entry) ''lat'' \<and>
      \<not> dict_contains (normalize_ais_message entry) ''lon'') \<and>
   (\<not> (is_number (dict_get entry ''lat'') \<and> is_number (dict_get entry ''lon'')) \<longrightarrow>
      map_of (normalize_ais_message entry) ''lat'' = map_option enum_name (map_of entry ''lat'') \<and>
      map_of (normalize_ais_message entry) ''lon'' = map_option enum_name (map_of entry ''lon'') \<and>
      map_of (normalize_ais_message entry) ''location'' =
        map_option enum_name (map_of entry ''location'')) \<and>
   (distinct (map fst entry) \<longrightarrow> distinct (map fst (normalize_ais_message entry)))"
  by (simp add: map_of_normalize contains_map_of distinct_normalize)

theorem normalize_location_fold_witness:
  "is_number (dict_get [(''mmsi'', PInt 123456789), (''lat'', PFloat 57.5), (''lon'', PFloat 18.2),
       (''status'', PEnum ''Moored'')] ''lat'') \<and>
   is_number (dict_get [(''mmsi'', PInt 123456789), (''lat'', PFloat 57.5), (''lon'', PFloat 18.2),
       (''status'', PEnum ''Moored'')] ''lon'') \<and>
   distinct (map fst [(''mmsi'', PInt 123456789), (''lat'', PFloat 57.5), (''lon'', PFloat 18.2),
       (''status'', PEnum ''Moored'')]) \<and>
   map_of (normalize_ais_message [(''mmsi'', PInt 123456789), (''lat'', PFloat 57.5),
       (''lon'', PFloat 18.2), (''status'', PEnum ''Moored'')]) ''location'' =
     Some (PDict [(''type'', PStr ''Point''), (''coordinates'', PList [PFloat 18.2, PFloat 57.5])]) \<and>
   \<not> dict_contains (normalize_ais_message [(''mmsi'', PInt 123456789), (''lat'', PFloat 57.5),
       (''lon'', PFloat 18.2), (''status'', PEnum ''Moored'')]) ''lat'' \<and>
   distinct (map fst (normalize_ais_message [(''mmsi'', PInt 123456789), (''lat'', PFloat 57.5),
       (''lon'', PFloat 18.2), (''status'', PEnum ''Moored'')])) \<and>
   \<not> (is_number (dict_get [(''mmsi'', PInt 1), (''lat'', PNone), (''lon'', PFloat 18.2)] ''lat'') \<and>
      is_number (dict_get [(''mmsi'', PInt 1), (''lat'', PNone), (''lon'', PFloat 18.2)] ''lon'')) \<and>
   map_of (normalize_ais_message [(''mmsi'', PInt 1), (''lat'', PNone), (''lon'', PFloat 18.2)])
       ''lon'' = Some (PFloat 18.2) \<and>
   map_of (normalize_ais_message [(''mmsi'', PInt 1), (''lat'', PNone), (''lon'', PFloat 18.2)])
       ''location'' = None"
  using normalize_location_fold
      [of "[(''mmsi'', PInt 123456789), (''lat'', PFloat 57.5), (''lon'', PFloat 18.2),
            (''status'', PEnum ''Moored'')]"]
    normalize_location_fold [of "[(''mmsi'', PInt 1), (''lat'', PNone), (''lon'', PFloat 18.2)]"]
  by (simp add: dict_get_def geo_point_def)

text \<open>
  Claim C9. The normalizer is idempotent: applied to its own output it returns that output,
  for every decoded entry, since a first pass leaves no enum member, no numeric
  \<open>lat\<close>/\<open>lon\<close> pair and no bytes under the binary keys.
\<close>

theorem normalize_idempotent:
  "normalize_ais_message (normalize_ais_message entry) = normalize_ais_message entry"
proof -
  let ?out = "normalize_ais_message entry"
  have a: "convert_enums ?out = ?out"
    by (rule convert_enums_id) (rule dict_get_normalize_not_enum)
  have b: "fold_location ?out = ?out"
    by (rule fold_location_id) (rule dict_get_normalize_latlon)
  have c: "decode_binary ?out = ?out"
    by (rule decode_binary_id) (rule dict_get_normalize_not_bytes)
  show ?thesis
    unfolding normalize_ais_message_def [of ?out] a b c ..
qed

section \<open>Properties of the coordinate extraction and of persistence\<close>

lemmas coord_defs = extract_coordinates_def read_coordinates_def coord_at_def
  is_valid_geo_point_def between_def dict_get_default_def dict_get_def geo_point_def

lemmas db_defs = create_vessel_def create_vessel_state_def ensure_vessel_def get_vessel_def
  insert_vessel_def insert_vessel_state_def update_vessel_def empty_db_def
  extract_vessel_data_def extract_vessel_state_def sql_eq_def

lemma extract_one_missing:
  "read_coordinates d = Inr (lon, lat) \<Longrightarrow> lon = PNone \<or> lat = PNone \<Longrightarrow>
   extract_coordinates d = Inr (lon, lat)"
  by (auto simp: extract_coordinates_def)

lemma process_calls:
  "extract_coordinates d = Inr (lon, lat) \<Longrightarrow>
   fst (snd (process_ais_message now d db)) =
     (if isl (fst (create_vessel now (extract_vessel_data d) db))
      then [CreateVessel (extract_vessel_data d)]
      else [CreateVessel (extract_vessel_data d),
            CreateVesselState (extract_vessel_state d lon lat (mmsi (extract_vessel_data d)))])"
  by (auto simp: process_ais_message_def Let_def split: prod.splits sum.splits)

lemma process_rejected:
  "extract_coordinates d = Inl e \<Longrightarrow> process_ais_message now d db = (Inl e, [], db)"
  by (simp add: process_ais_message_def)

text \<open>Where the validation does reject: both coordinates are numbers other than zero and
  one of them is out of its range.\<close>

lemma nonzero_out_of_range_rejected:
  assumes "read_coordinates d = Inr (lon, lat)"
    and "num_value lon = Some x" and "num_value lat = Some y"
    and "x \<noteq> 0" and "y \<noteq> 0"
    and "\<not> (- 180 \<le> x \<and> x \<le> 180 \<and> - 90 \<le> y \<and> y \<le> 90)"
  shows "process_ais_message now d db = (Inl (InvalidCoordinates lon lat), [], db)"
proof -
  from assms(2,4) have tl: "truthy lon" and nl: "lon \<noteq> PNone"
    by (cases lon; auto split: if_splits)+
  from assms(3,5) have ta: "truthy lat" and na: "lat \<noteq> PNone"
    by (cases lat; auto split: if_splits)+
  from assms(2,3,6) tl ta have "is_valid_geo_point lon lat = Inr False"
    by (auto simp: is_valid_geo_point_def between_def split: bool.splits)
  with assms(1) nl na have "extract_coordinates d = Inl (InvalidCoordinates lon lat)"
    by (simp add: extract_coordinates_def)
  then show ?thesis by (rule process_rejected)
qed

text \<open>
  Claim C1, at the input where the code departs from it. A report at longitude \<open>0.0\<close> and
  latitude \<open>91.0\<close> has both coordinates present and the latitude out of range. The test
  \<open>if lon and lat\<close> of \<open>is_valid_geo_point\<close> takes the longitude \<open>0.0\<close> for a missing one
  and answers that the point is valid: the extraction returns the pair, and both
  \<open>create_vessel\<close> and \<open>create_vessel_state\<close> are called.
\<close>

theorem zero_longitude_passes_validation:
  "extract_coordinates [(''mmsi'', PInt 123456789), (''location'', geo_point (PFloat 0) (PFloat 91))]
     = Inr (PFloat 0, PFloat 91) \<and>
   fst (snd (process_ais_message 0
       [(''mmsi'', PInt 123456789), (''location'', geo_point (PFloat 0) (PFloat 91))] empty_db))
     = [CreateVessel \<lparr>mmsi = PInt 123456789, imo = PNone, ship_name = PNone, ship_type = PNone\<rparr>,
        CreateVesselState \<lparr>vessel_mmsi = PInt 123456789, latitude = PFloat 91, longitude = PFloat 0,
          speed = PNone, heading = PNone, course = PNone, draught = PNone, status = PNone,
          call_sign = PNone, destination = PNone\<rparr>]"
  by (simp add: process_ais_message_def db_defs coord_defs)

text \<open>
  Claim C2, as the code has it. For every report whose extracted pair has exactly one
  component that is not \<open>None\<close>, the extraction does not raise: it returns the pair as it
  is, \<open>create_vessel\<close> is called, and, unless that call raises, \<open>create_vessel_state\<close> is
  called with the coordinate that is present and \<open>None\<close> for the other.
\<close>

theorem one_coordinate_is_persisted:
  assumes "read_coordinates d = Inr (lon, lat)" and "(lon = PNone) \<noteq> (lat = PNone)"
  shows "extract_coordinates d = Inr (lon, lat) \<and>
         fst (snd (process_ais_message now d db)) =
           (if isl (fst (create_vessel now (extract_vessel_data d) db))
            then [CreateVessel (extract_vessel_data d)]
            else [CreateVessel (extract_vessel_data d),
                  CreateVesselState (extract_vessel_state d lon lat (mmsi (extract_vessel_data d)))])"
proof -
  from assms have e: "extract_coordinates d = Inr (lon, lat)"
    by (intro extract_one_missing) auto
  then show ?thesis by (simp add: process_calls)
qed

theorem one_coordinate_is_persisted_witness:
  "read_coordinates [(''mmsi'', PInt 123456789),
      (''location'', PDict [(''type'', PStr ''Point''), (''coordinates'', PList [PNone, PFloat 57.5])])]
     = Inr (PNone, PFloat 57.5) \<and>
   (PNone = PNone) \<noteq> (PFloat 57.5 = PNone) \<and>
   extract_coordinates [(''mmsi'', PInt 123456789),
      (''location'', PDict [(''type'', PStr ''Point''), (''coordinates'', PList [PNone, PFloat 57.5])])]
     = Inr (PNone, PFloat 57.5) \<and>
   fst (snd (process_ais_message 0 [(''mmsi'', PInt 123456789),
      (''location'', PDict [(''type'', PStr ''Point''), (''coordinates'', PList [PNone, PFloat 57.5])])]
      empty_db))
     = [CreateVessel \<lparr>mmsi = PInt 123456789, imo = PNone, ship_name = PNone, ship_type = PNone\<rparr>,
        CreateVesselState \<lparr>vessel_mmsi = PInt 123456789, latitude = PFloat 57.5, longitude = PNone,
          speed = PNone, heading = PNone, course = PNone, draught = PNone, status = PNone,
          call_sign = PNone, destination = PNone\<rparr>]"
proof -
  let ?d = "[(''mmsi'', PInt 123456789),
      (''location'', PDict [(''type'', PStr ''Point''), (''coordinates'', PList [PNone, PFloat 57.5])])]"
  have r: "read_coordinates ?d = Inr (PNone, PFloat 57.5)"
    by (simp add: coord_defs)
  have n: "(PNone = PNone) \<noteq> (PFloat 57.5 = PNone)" by simp
  from one_coordinate_is_persisted [OF r n, of 0 empty_db] r n show ?thesis
    by (simp add: db_defs dict_get_def)
qed

text \<open>The claim as the specification states it fails on a report that carries a longitude
  only: nothing is raised and both gateway calls are made.\<close>

theorem one_coordinate_counterexample:
  "read_coordinates [(''mmsi'', PInt 123456789),
      (''location'', PDict [(''type'', PStr ''Point''), (''coordinates'', PList [PFloat 18.2])])]
     = Inr (PFloat 18.2, PNone) \<and>
   extract_coordinates [(''mmsi'', PInt 123456789),
      (''location'', PDict [(''type'', PStr ''Point''), (''coordinates'', PList [PFloat 18.2])])]
     = Inr (PFloat 18.2, PNone) \<and>
   fst (snd (process_ais_message 0 [(''mmsi'', PInt 123456789),
      (''location'', PDict [(''type'', PStr ''Point''), (''coordinates'', PList [PFloat 18.2])])]
      empty_db))
     = [CreateVessel \<lparr>mmsi = PInt 123456789, imo = PNone, ship_name = PNone, ship_type = PNone\<rparr>,
        CreateVesselState \<lparr>vessel_mmsi = PInt 123456789, latitude = PNone, longitude = PFloat 18.2,
          speed = PNone, heading = PNone, course = PNone, draught = PNone, status = PNone,
          call_sign = PNone, destination = PNone\<rparr>]"
  by (simp add: process_ais_message_def db_defs coord_defs)

section \<open>Properties of the storage gateway\<close>

lemma get_vessel_Some:
  "get_vessel m db = Inr (Some r) \<Longrightarrow> r \<in> set (vessels db) \<and> v_mmsi r = m \<and> m \<noteq> PNone"
  by (auto simp: get_vessel_def sql_eq_def split: if_splits dest: find_Some_iff [THEN iffD1] nth_mem)

lemma get_vessel_None:
  "get_vessel m db = Inr None \<Longrightarrow>
   bindable m \<and> \<not> list_ex (\<lambda>r. sql_eq (v_mmsi r) m) (vessels db)"
  by (auto simp: get_vessel_def find_None_iff list_ex_iff split: if_splits)

text \<open>When \<open>get_vessel\<close> finds no row, the insertion of \<open>create_vessel\<close> cannot fail on the
  primary key, and the new row carries the MMSI.\<close>

lemma ensure_vessel_fresh:
  assumes "get_vessel m db = Inr None"
  shows "ensure_vessel now m db =
           (Inr (), db\<lparr>vessels := vessels db @
              [\<lparr>v_rowid = Suc (foldr max (map v_rowid (vessels db)) 0), v_mmsi = m, v_imo = PNone,
                v_ship_name = PNone, v_ship_type = PNone, v_created_at = now,
                v_updated_at = now\<rparr>]\<rparr>)"
  using assms get_vessel_None [OF assms]
  by (simp add: ensure_vessel_def create_vessel_def insert_vessel_def Let_def)

lemma ensure_vessel_found:
  "get_vessel m db = Inr (Some r) \<Longrightarrow> ensure_vessel now m db = (Inr (), db)"
  by (simp add: ensure_vessel_def)

lemma ensure_vessel_error:
  "get_vessel m db = Inl e \<Longrightarrow> ensure_vessel now m db = (Inl e, db)"
  by (simp add: ensure_vessel_def)

lemma references_ok_iff:
  "references_ok db \<longleftrightarrow>
   (\<forall>s \<in> set (vessel_states db). s_vessel_mmsi s \<in> set (map v_mmsi (vessels db)))"
  by (force simp: references_ok_def list_all_iff list_ex_iff)

lemma insert_vessel_state_cases:
  "insert_vessel_state now vs db = (Inl SqlBindError, db) \<or>
   insert_vessel_state now vs db =
     (Inr (LastRowId (Suc (state_seq db))),
      db\<lparr>vessel_states := vessel_states db @
           [\<lparr>s_id = Suc (state_seq db), s_vessel_mmsi = vessel_mmsi vs, s_latitude = latitude vs,
             s_longitude = longitude vs, s_speed = speed vs, s_heading = heading vs,
             s_course = course vs, s_draught = draught vs, s_status = status vs,
             s_call_sign = call_sign vs, s_destination = destination vs,
             s_received_at = now, s_updated_at = now\<rparr>],
         state_seq := Suc (state_seq db)\<rparr>)"
  by (simp add: insert_vessel_state_def Let_def)

text \<open>
  Claim C10. \<open>create_vessel_state\<close> looks the MMSI up first. When the lookup raises,
  nothing is written; when it finds a row, the table of vessels is left as it is; when it
  finds none, one row of that MMSI is appended. A state row is inserted only after that:
  whenever the call returns, the row it appended carries the MMSI of a row of \<open>vessels\<close>,
  and when it raises no state row was added. So the call keeps referential integrity.
\<close>

theorem create_vessel_state_references:
  "(case get_vessel (vessel_mmsi vs) db of
      Inl e \<Rightarrow> create_vessel_state now vs db = (Inl e, db)
    | Inr (Some r) \<Rightarrow> vessels (snd (create_vessel_state now vs db)) = vessels db
    | Inr None \<Rightarrow>
        (\<exists>row. vessels (snd (create_vessel_state now vs db)) = vessels db @ [row] \<and>
               v_mmsi row = vessel_mmsi vs)) \<and>
   (\<forall>r. fst (create_vessel_state now vs db) = Inr r \<longrightarrow>
      (\<exists>row. vessel_states (snd (create_vessel_state now vs db)) = vessel_states db @ [row] \<and>
             s_vessel_mmsi row = vessel_mmsi vs \<and>
             list_ex (\<lambda>v. v_mmsi v = s_vessel_mmsi row)
               (vessels (snd (create_vessel_state now vs db))))) \<and>
   (\<forall>e. fst (create_vessel_state now vs db) = Inl e \<longrightarrow>
      vessel_states (snd (create_vessel_state now vs db)) = vessel_states db) \<and>
   (references_ok db \<longrightarrow> references_ok (snd (create_vessel_state now vs db)))"
proof (cases "get_vessel (vessel_mmsi vs) db")
  case (Inl e)
  then show ?thesis
    by (simp add: create_vessel_state_def ensure_vessel_error)
next
  case (Inr found)
  show ?thesis
  proof (cases found)
    case None
    with Inr have g: "get_vessel (vessel_mmsi vs) db = Inr None" by simp
    show ?thesis
      using insert_vessel_state_cases [of now vs "snd (ensure_vessel now (vessel_mmsi vs) db)"]
      by (auto simp: g create_vessel_state_def ensure_vessel_fresh [OF g] references_ok_iff
          list_ex_iff)
  next
    case (Some r)
    with Inr have g: "get_vessel (vessel_mmsi vs) db = Inr (Some r)" by simp
    from get_vessel_Some [OF g] have "vessel_mmsi vs \<in> v_mmsi ` set (vessels db)"
      by (metis imageI)
    then show ?thesis
      using insert_vessel_state_cases [of now vs db]
      by (auto simp: g create_vessel_state_def ensure_vessel_found [OF g] references_ok_iff
          list_ex_iff)
  qed
qed

theorem create_vessel_state_references_witness:
  "references_ok empty_db \<and>
   get_vessel (PInt 123456789) empty_db = Inr None \<and>
   fst (create_vessel_state 5
         \<lparr>vessel_mmsi = PInt 123456789, latitude = PFloat 57.5, longitude = PFloat 18.2,
          speed = PNone, heading = PNone, course = PNone, draught = PNone, status = PNone,
          call_sign = PNone, destination = PNone\<rparr> empty_db) = Inr (LastRowId 1) \<and>
   map v_mmsi (vessels (snd (create_vessel_state 5
         \<lparr>vessel_mmsi = PInt 123456789, latitude = PFloat 57.5, longitude = PFloat 18.2,
          speed = PNone, heading = PNone, course = PNone, draught = PNone, status = PNone,
          call_sign = PNone, destination = PNone\<rparr> empty_db))) = [PInt 123456789] \<and>
   map s_vessel_mmsi (vessel_states (snd (create_vessel_state 5
         \<lparr>vessel_mmsi = PInt 123456789, latitude = PFloat 57.5, longitude = PFloat 18.2,
          speed = PNone, heading = PNone, course = PNone, draught = PNone, status = PNone,
          call_sign = PNone, destination = PNone\<rparr> empty_db))) = [PInt 123456789] \<and>
   references_ok (snd (create_vessel_state 5
         \<lparr>vessel_mmsi = PInt 123456789, latitude = PFloat 57.5, longitude = PFloat 18.2,
          speed = PNone, heading = PNone, course = PNone, draught = PNone, status = PNone,
          call_sign = PNone, destination = PNone\<rparr> empty_db))"
  using create_vessel_state_references
    [where vs = "\<lparr>vessel_mmsi = PInt 123456789, latitude = PFloat 57.5, longitude = PFloat 18.2,
          speed = PNone, heading = PNone, course = PNone, draught = PNone, status = PNone,
          call_sign = PNone, destination = PNone\<rparr>" and db = empty_db and now = 5]
  by (simp add: db_defs references_ok_def)

section \<open>Properties of the decoupling queue\<close>

text \<open>What the workers call and store depends on the queue and the database only, not on
  what was logged.\<close>

lemma db_worker_step_cong:
  assumes "database st1 = database st2" and "db_queue st1 = db_queue st2"
  shows "(db_worker_step now st1 = None \<and> db_worker_step now st2 = None) \<or>
         (\<exists>calls s1 s2. db_worker_step now st1 = Some (calls, s1) \<and>
            db_worker_step now st2 = Some (calls, s2) \<and>
            database s1 = database s2 \<and> db_queue s1 = db_queue s2)"
  using assms
  by (cases "items (db_queue st2)")
     (auto simp: db_worker_step_def split: prod.splits)

lemma db_worker_cong:
  "database st1 = database st2 \<Longrightarrow> db_queue st1 = db_queue st2 \<Longrightarrow>
   fst (db_worker ticks st1) = fst (db_worker ticks st2) \<and>
   database (snd (db_worker ticks st1)) = database (snd (db_worker ticks st2)) \<and>
   db_queue (snd (db_worker ticks st1)) = db_queue (snd (db_worker ticks st2))"
proof (induction ticks arbitrary: st1 st2)
  case Nil
  then show ?case by simp
next
  case (Cons now ticks)
  from db_worker_step_cong [OF Cons.prems, of now] show ?case
  proof
    assume "db_worker_step now st1 = None \<and> db_worker_step now st2 = None"
    with Cons.prems show ?thesis by simp
  next
    assume "\<exists>calls s1 s2. db_worker_step now st1 = Some (calls, s1) \<and>
            db_worker_step now st2 = Some (calls, s2) \<and>
            database s1 = database s2 \<and> db_queue s1 = db_queue s2"
    then obtain calls s1 s2 where
      s: "db_worker_step now st1 = Some (calls, s1)" "db_worker_step now st2 = Some (calls, s2)"
      and e: "database s1 = database s2" "db_queue s1 = db_queue s2"
      by blast
    from Cons.IH [OF e] s show ?thesis
      by (simp add: case_prod_beta)
  qed
qed

text \<open>
  Claim C4. On a full queue \<open>put_nowait\<close> answers \<open>QueueFull\<close> at once, and the enqueue
  step of the ingestion path, a function that always returns, leaves the queue and the
  database as they are and logs the warning: the report is dropped. The workers then make
  the same gateway calls and leave the same database as if the report had never arrived,
  whatever the times of their rounds.
\<close>

theorem full_queue_drops_report:
  "full (db_queue st) \<longrightarrow>
     put_nowait m (db_queue st) = Inl QueueFull \<and>
     enqueue_report m st = st\<lparr>logger := logger st @ [DbQueueFullDropping]\<rparr> \<and>
     db_queue (enqueue_report m st) = db_queue st \<and>
     database (enqueue_report m st) = database st \<and>
     fst (db_worker ticks (enqueue_report m st)) = fst (db_worker ticks st) \<and>
     database (snd (db_worker ticks (enqueue_report m st))) = database (snd (db_worker ticks st))"
proof
  assume f: "full (db_queue st)"
  then have e: "enqueue_report m st = st\<lparr>logger := logger st @ [DbQueueFullDropping]\<rparr>"
    by (simp add: enqueue_report_def put_nowait_def)
  have "database (enqueue_report m st) = database st" "db_queue (enqueue_report m st) = db_queue st"
    by (simp_all add: e)
  from db_worker_cong [OF this, of ticks] f e
  show "put_nowait m (db_queue st) = Inl QueueFull \<and>
     enqueue_report m st = st\<lparr>logger := logger st @ [DbQueueFullDropping]\<rparr> \<and>
     db_queue (enqueue_report m st) = db_queue st \<and>
     database (enqueue_report m st) = database st \<and>
     fst (db_worker ticks (enqueue_report m st)) = fst (db_worker ticks st) \<and>
     database (snd (db_worker ticks (enqueue_report m st))) = database (snd (db_worker ticks st))"
    by (simp add: put_nowait_def)
qed

theorem full_queue_drops_report_witness:
  "full \<lparr>items = replicate 200000 [(''mmsi'', PInt 1)], maxsize = 200000\<rparr> \<and>
   enqueue_report [(''mmsi'', PInt 2)]
     \<lparr>database = empty_db,
      db_queue = \<lparr>items = replicate 200000 [(''mmsi'', PInt 1)], maxsize = 200000\<rparr>, logger = []\<rparr>
   = \<lparr>database = empty_db,
      db_queue = \<lparr>items = replicate 200000 [(''mmsi'', PInt 1)], maxsize = 200000\<rparr>,
      logger = [DbQueueFullDropping]\<rparr> \<and>
   fst (db_worker [7] (enqueue_report [(''mmsi'', PInt 2)]
     \<lparr>database = empty_db,
      db_queue = \<lparr>items = replicate 200000 [(''mmsi'', PInt 1)], maxsize = 200000\<rparr>, logger = []\<rparr>))
   = fst (db_worker [7]
     \<lparr>database = empty_db,
      db_queue = \<lparr>items = replicate 200000 [(''mmsi'', PInt 1)], maxsize = 200000\<rparr>, logger = []\<rparr>)"
proof -
  let ?q = "\<lparr>items = replicate 200000 [(''mmsi'', PInt 1)], maxsize = 200000\<rparr>"
  let ?st = "\<lparr>database = empty_db, db_queue = ?q, logger = []\<rparr>"
  have q: "full ?q" by (simp add: full_def)
  then have f: "full (db_queue ?st)" by simp
  note t = full_queue_drops_report [of ?st "[(''mmsi'', PInt 2)]" "[7]", THEN mp, OF f]
  from t have e: "enqueue_report [(''mmsi'', PInt 2)] ?st =
      \<lparr>database = empty_db, db_queue = ?q, logger = [DbQueueFullDropping]\<rparr>"
    by simp
  from t have w: "fst (db_worker [7] (enqueue_report [(''mmsi'', PInt 2)] ?st)) =
      fst (db_worker [7] ?st)"
    by blast
  from q e w show ?thesis by blast
qed

section \<open>Properties of the structured broadcast\<close>

lemma ws_round_sent:
  "(ws_round send_ok message c = SendOk \<or> ws_round send_ok message c = SendFailed) \<longleftrightarrow>
   ws_filter (snd c) message = Inr True"
  by (cases "ws_filter (snd c) message") (auto simp: ws_round_def split: bool.splits)

lemma fst_broadcast_ws:
  "fst (broadcast_ws send_ok ws_clients message) =
     map fst (filter (\<lambda>c. ws_filter (snd c) message = Inr True) ws_clients)"
  by (simp add: broadcast_ws_def Let_def ws_round_sent)

lemma sent_iff:
  assumes "distinct (map fst ws_clients)" and "map_of ws_clients ws = Some filt"
  shows "ws \<in> set (fst (broadcast_ws send_ok ws_clients message)) \<longleftrightarrow>
         ws_filter filt message = Inr True"
proof
  assume "ws \<in> set (fst (broadcast_ws send_ok ws_clients message))"
  then obtain c where c: "c \<in> set ws_clients" "fst c = ws" "ws_filter (snd c) message = Inr True"
    unfolding fst_broadcast_ws by auto
  then have "(ws, snd c) \<in> set ws_clients" by (metis prod.collapse)
  with assms(1) have "map_of ws_clients ws = Some (snd c)" by simp
  with assms(2) c(3) show "ws_filter filt message = Inr True" by simp
next
  assume t: "ws_filter filt message = Inr True"
  from assms(2) have "(ws, filt) \<in> set ws_clients" by (rule map_of_SomeD)
  with t show "ws \<in> set (fst (broadcast_ws send_ok ws_clients message))"
    unfolding fst_broadcast_ws by force
qed

lemma bounds_contains_True:
  "bounds_contains b lat lon = Inr True \<longleftrightarrow>
     (\<exists>x y. num_value lon = Some x \<and> num_value lat = Some y \<and>
        min_lat b \<le> y \<and> y \<le> max_lat b \<and> min_lon b \<le> x \<and> x \<le> max_lon b)"
proof (cases "num_value lat")
  case None
  then show ?thesis by (simp add: bounds_contains_def between_def)
next
  case (Some y)
  show ?thesis
  proof (cases "num_value lon")
    case None
    with Some show ?thesis by (simp add: bounds_contains_def between_def split: bool.splits)
  next
    case (Some x)
    with \<open>num_value lat = Some y\<close> show ?thesis
      by (auto simp: bounds_contains_def between_def split: bool.splits)
  qed
qed

lemma ws_filter_PDict:
  "dict_get message ''location'' = PDict d \<Longrightarrow>
   ws_filter (Some b) message =
     (if d = [] then Inr False
      else case map_of d ''coordinates'' of
             None \<Rightarrow> Inl KeyError
           | Some c \<Rightarrow>
               (case unpack2 c of
                  Inl e \<Rightarrow> Inl e
                | Inr (lon, lat) \<Rightarrow> bounds_contains b lat lon))"
  by (simp add: ws_filter_def Let_def)

lemma ws_filter_True_PDict:
  "ws_filter (Some b) message = Inr True \<Longrightarrow> \<exists>d. dict_get message ''location'' = PDict d"
  by (cases "dict_get message ''location''") (simp_all add: ws_filter_def Let_def split: if_splits)

lemma dict_get_PDict: "dict_get m k = PDict d \<longleftrightarrow> map_of m k = Some (PDict d)"
  by (simp add: dict_get_def split: option.splits)

lemma ws_filter_Some_True:
  "ws_filter (Some b) message = Inr True \<longleftrightarrow>
     (\<exists>loc c lon lat x y. map_of message ''location'' = Some (PDict loc) \<and>
        map_of loc ''coordinates'' = Some c \<and> unpack2 c = Inr (lon, lat) \<and>
        num_value lon = Some x \<and> num_value lat = Some y \<and>
        min_lat b \<le> y \<and> y \<le> max_lat b \<and> min_lon b \<le> x \<and> x \<le> max_lon b)"
  (is "?L \<longleftrightarrow> ?R")
proof
  assume l: ?L
  then obtain d where d: "dict_get message ''location'' = PDict d"
    using ws_filter_True_PDict [of b message] by blast
  from l have f: "(if d = [] then Inr False
      else case map_of d ''coordinates'' of
             None \<Rightarrow> Inl KeyError
           | Some c \<Rightarrow>
               (case unpack2 c of
                  Inl e \<Rightarrow> Inl e
                | Inr (lon, lat) \<Rightarrow> bounds_contains b lat lon)) = Inr True"
    unfolding ws_filter_PDict [OF d] .
  then obtain c where c: "map_of d ''coordinates'' = Some c"
    by (cases "map_of d ''coordinates''") (auto split: if_splits)
  from f c obtain lon lat where u: "unpack2 c = Inr (lon, lat)"
    by (cases "unpack2 c") (auto split: if_splits)
  from f c u have "bounds_contains b lat lon = Inr True"
    by (auto split: if_splits)
  then obtain x y where "num_value lon = Some x" "num_value lat = Some y"
      "min_lat b \<le> y" "y \<le> max_lat b" "min_lon b \<le> x" "x \<le> max_lon b"
    unfolding bounds_contains_True by blast
  with d c u show ?R
    unfolding dict_get_PDict by blast
next
  assume ?R
  then obtain loc c lon lat x y where
    m: "map_of message ''location'' = Some (PDict loc)" and
    c: "map_of loc ''coordinates'' = Some c" and u: "unpack2 c = Inr (lon, lat)" and
    n: "num_value lon = Some x" "num_value lat = Some y"
       "min_lat b \<le> y" "y \<le> max_lat b" "min_lon b \<le> x" "x \<le> max_lon b"
    by blast
  from m have d: "dict_get message ''location'' = PDict loc" by (simp add: dict_get_PDict)
  from c have ne: "loc \<noteq> []" by auto
  from n have "bounds_contains b lat lon = Inr True"
    unfolding bounds_contains_True by blast
  with c u ne show ?L
    by (simp add: ws_filter_PDict [OF d])
qed

lemma ws_filter_no_location:
  "\<not> truthy (dict_get message ''location'') \<Longrightarrow> ws_filter (Some b) message = Inr False"
  by (simp add: ws_filter_def Let_def)

text \<open>
  Claim C3. Take a registry with distinct connections and a subscriber \<open>ws\<close> in it.
  \<open>send_json\<close> of the report is called for \<open>ws\<close> when its filter is unset; when its filter
  is set to bounds, it is called if and only if the report has a \<open>location\<close> whose
  \<open>coordinates\<close> unpack to numbers \<open>(lon, lat)\<close> with
  \<open>min_lat \<le> lat \<le> max_lat\<close> and \<open>min_lon \<le> lon \<le> max_lon\<close>; so it is never called
  for a report without a location. The witness has the bounds \<open>{56, 58, 18, 21}\<close>, which match
  \<open>(lat 57, lon 19)\<close> and do not match \<open>(lat 60, lon 19)\<close>.
\<close>

theorem broadcast_ws_filter:
  assumes "distinct (map fst ws_clients)" and "map_of ws_clients ws = Some filt"
  shows "(filt = None \<longrightarrow> ws \<in> set (fst (broadcast_ws send_ok ws_clients message))) \<and>
    (\<forall>b. filt = Some b \<longrightarrow>
       (ws \<in> set (fst (broadcast_ws send_ok ws_clients message)) \<longleftrightarrow>
        (\<exists>loc c lon lat x y. map_of message ''location'' = Some (PDict loc) \<and>
           map_of loc ''coordinates'' = Some c \<and> unpack2 c = Inr (lon, lat) \<and>
           num_value lon = Some x \<and> num_value lat = Some y \<and>
           min_lat b \<le> y \<and> y \<le> max_lat b \<and> min_lon b \<le> x \<and> x \<le> max_lon b))) \<and>
    (\<forall>b. filt = Some b \<and> \<not> truthy (dict_get message ''location'') \<longrightarrow>
       ws \<notin> set (fst (broadcast_ws send_ok ws_clients message)))"
proof (intro conjI allI impI)
  assume "filt = None"
  then show "ws \<in> set (fst (broadcast_ws send_ok ws_clients message))"
    by (simp add: sent_iff [OF assms] ws_filter_def)
next
  fix b assume "filt = Some b"
  then show "ws \<in> set (fst (broadcast_ws send_ok ws_clients message)) \<longleftrightarrow>
        (\<exists>loc c lon lat x y. map_of message ''location'' = Some (PDict loc) \<and>
           map_of loc ''coordinates'' = Some c \<and> unpack2 c = Inr (lon, lat) \<and>
           num_value lon = Some x \<and> num_value lat = Some y \<and>
           min_lat b \<le> y \<and> y \<le> max_lat b \<and> min_lon b \<le> x \<and> x \<le> max_lon b)"
    by (simp only: sent_iff [OF assms] ws_filter_Some_True)
next
  fix b assume "filt = Some b \<and> \<not> truthy (dict_get message ''location'')"
  then show "ws \<notin> set (fst (broadcast_ws send_ok ws_clients message))"
    by (simp add: sent_iff [OF assms] ws_filter_no_location)
qed

theorem broadcast_ws_filter_witness:
  "distinct (map fst [(1::nat, None),
      (2, Some \<lparr>min_lat = 56, max_lat = 58, min_lon = 18, max_lon = 21\<rparr>)]) \<and>
   map_of [(1::nat, None), (2, Some \<lparr>min_lat = 56, max_lat = 58, min_lon = 18, max_lon = 21\<rparr>)] 1
     = Some None \<and>
   map_of [(1::nat, None), (2, Some \<lparr>min_lat = 56, max_lat = 58, min_lon = 18, max_lon = 21\<rparr>)] 2
     = Some (Some \<lparr>min_lat = 56, max_lat = 58, min_lon = 18, max_lon = 21\<rparr>) \<and>
   2 \<in> set (fst (broadcast_ws (\<lambda>w m. True)
      [(1::nat, None), (2, Some \<lparr>min_lat = 56, max_lat = 58, min_lon = 18, max_lon = 21\<rparr>)]
      [(''mmsi'', PInt 123456789), (''location'', geo_point (PFloat 19) (PFloat 57))])) \<and>
   2 \<notin> set (fst (broadcast_ws (\<lambda>w m. True)
      [(1::nat, None), (2, Some \<lparr>min_lat = 56, max_lat = 58, min_lon = 18, max_lon = 21\<rparr>)]
      [(''mmsi'', PInt 123456789), (''location'', geo_point (PFloat 19) (PFloat 60))])) \<and>
   1 \<in> set (fst (broadcast_ws (\<lambda>w m. True)
      [(1::nat, None), (2, Some \<lparr>min_lat = 56, max_lat = 58, min_lon = 18, max_lon = 21\<rparr>)]
      [(''mmsi'', PInt 123456789)])) \<and>
   2 \<notin> set (fst (broadcast_ws (\<lambda>w m. True)
      [(1::nat, None), (2, Some \<lparr>min_lat = 56, max_lat = 58, min_lon = 18, max_lon = 21\<rparr>)]
      [(''mmsi'', PInt 123456789)]))"
proof -
  let ?b = "\<lparr>min_lat = 56, max_lat = 58, min_lon = 18, max_lon = 21\<rparr>"
  let ?cs = "[(1::nat, None), (2, Some ?b)]"
  let ?m57 = "[(''mmsi'', PInt 123456789), (''location'', geo_point (PFloat 19) (PFloat 57))]"
  let ?m60 = "[(''mmsi'', PInt 123456789), (''location'', geo_point (PFloat 19) (PFloat 60))]"
  let ?m0 = "[(''mmsi'', PInt 123456789)]"
  have d: "distinct (map fst ?cs)" by simp
  have c1: "map_of ?cs 1 = Some None" by simp
  have c2: "map_of ?cs 2 = Some (Some ?b)" by simp
  have a: "2 \<in> set (fst (broadcast_ws (\<lambda>w m. True) ?cs ?m57))"
    using broadcast_ws_filter [OF d c2, of "\<lambda>w m. True" ?m57]
    by (simp add: geo_point_def unpack2_def)
  have b: "2 \<notin> set (fst (broadcast_ws (\<lambda>w m. True) ?cs ?m60))"
    using broadcast_ws_filter [OF d c2, of "\<lambda>w m. True" ?m60]
    by (simp add: geo_point_def unpack2_def)
  have c: "1 \<in> set (fst (broadcast_ws (\<lambda>w m. True) ?cs ?m0))"
    using broadcast_ws_filter [OF d c1, of "\<lambda>w m. True" ?m0]
    by simp
  have e: "2 \<notin> set (fst (broadcast_ws (\<lambda>w m. True) ?cs ?m0))"
    using broadcast_ws_filter [OF d c2, of "\<lambda>w m. True" ?m0]
    by (simp add: dict_get_def)
  from d c1 c2 a b c e show ?thesis by blast
qed

section \<open>Properties of the rotation\<close>

lemma live_after_rotation:
  "LIVE_DB (reset_db_on_new_day date_str uuid now st) =
     path_join (database_url st) (get_new_db_name date_str uuid)"
  by (simp add: reset_db_on_new_day_def delete_old_database_def delete_log_file_def reset_db_def
      Let_def)

lemma new_name_eq_iff:
  "path_join url (get_new_db_name d u) = path_join url (get_new_db_name d0 u0) \<longleftrightarrow>
   d @ ''_'' @ take 8 u = d0 @ ''_'' @ take 8 u0"
proof -
  have "get_new_db_name d u = (d @ ''_'' @ take 8 u) @ ''_ais_db.db''" for d u
    by (simp add: get_new_db_name_def)
  then show ?thesis
    by (simp only: path_join_def same_append_eq append_same_eq)
qed

lemma files_after_rotation:
  "files (reset_db_on_new_day date_str uuid now st) =
     filter (\<lambda>f. \<not> is_deleted (reset_db date_str uuid now st) now 1 f)
       (files (reset_db date_str uuid now st))"
  by (simp add: reset_db_on_new_day_def delete_old_database_def delete_log_file_def is_deleted_def)

lemma stamp_eq_iff:
  "length d = length d0 \<Longrightarrow>
   (d @ ''_'' @ take 8 u = d0 @ ''_'' @ take 8 u0) = (d = d0 \<and> take 8 u = take 8 u0)"
  by auto

lemma set_files_delete_old_database:
  "set (files (delete_old_database now weeks st)) =
     {f \<in> set (files st).
        \<not> (is_db_file (fst f) \<and> of_int weeks * week_seconds < now - snd f \<and>
           path_join (database_url st) (fst f) \<noteq> LIVE_DB st \<and>
           path_join (database_url st) (fst f) \<noteq> SNAPSHOT_DB st)}"
  by (auto simp: delete_old_database_def is_deleted_def Let_def)

text \<open>
  Claim C8, as the code has it. The rotation step points the live handle at
  \<open>database_url/<date>_<first 8 characters of a fresh uuid4>_ais_db.db\<close>. When the prior
  handle was made the same way, the new one differs from it exactly when the date or
  those 8 characters differ. The cleanup that follows removes from the directory exactly
  the \<open>.db\<close> files that are older than one week and are neither the new live database nor
  the snapshot; every other file stays. \<open>delete_old_database\<close> does the same for any
  number of weeks.
\<close>

theorem rotation_step:
  "LIVE_DB (reset_db_on_new_day date_str uuid now st) =
     path_join (database_url st) (get_new_db_name date_str uuid) \<and>
   (LIVE_DB st = path_join (database_url st) (get_new_db_name date0 uuid0) \<and>
    length date_str = length date0 \<longrightarrow>
      (LIVE_DB (reset_db_on_new_day date_str uuid now st) \<noteq> LIVE_DB st \<longleftrightarrow>
       date_str \<noteq> date0 \<or> take 8 uuid \<noteq> take 8 uuid0)) \<and>
   SNAPSHOT_DB (reset_db_on_new_day date_str uuid now st) = SNAPSHOT_DB st \<and>
   set (files (reset_db_on_new_day date_str uuid now st)) =
     {f \<in> set (files (reset_db date_str uuid now st)).
        \<not> (is_db_file (fst f) \<and> 1 * week_seconds < now - snd f \<and>
           path_join (database_url st) (fst f) \<noteq>
             LIVE_DB (reset_db_on_new_day date_str uuid now st) \<and>
           path_join (database_url st) (fst f) \<noteq> SNAPSHOT_DB st)} \<and>
   set (files (delete_old_database now weeks st)) =
     {f \<in> set (files st).
        \<not> (is_db_file (fst f) \<and> of_int weeks * week_seconds < now - snd f \<and>
           path_join (database_url st) (fst f) \<noteq> LIVE_DB st \<and>
           path_join (database_url st) (fst f) \<noteq> SNAPSHOT_DB st)}"
proof (intro conjI impI)
  show l: "LIVE_DB (reset_db_on_new_day date_str uuid now st) =
     path_join (database_url st) (get_new_db_name date_str uuid)"
    by (rule live_after_rotation)
  show "SNAPSHOT_DB (reset_db_on_new_day date_str uuid now st) = SNAPSHOT_DB st"
    by (simp add: reset_db_on_new_day_def delete_old_database_def delete_log_file_def
        reset_db_def Let_def)
  show "set (files (delete_old_database now weeks st)) =
     {f \<in> set (files st).
        \<not> (is_db_file (fst f) \<and> of_int weeks * week_seconds < now - snd f \<and>
           path_join (database_url st) (fst f) \<noteq> LIVE_DB st \<and>
           path_join (database_url st) (fst f) \<noteq> SNAPSHOT_DB st)}"
    by (rule set_files_delete_old_database)
  have "set (files (reset_db_on_new_day date_str uuid now st)) =
      set (files (delete_old_database now 1 (delete_log_file (reset_db date_str uuid now st))))"
    by (simp add: reset_db_on_new_day_def)
  also have "\<dots> = {f \<in> set (files (reset_db date_str uuid now st)).
        \<not> (is_db_file (fst f) \<and> 1 * week_seconds < now - snd f \<and>
           path_join (database_url st) (fst f) \<noteq>
             LIVE_DB (reset_db_on_new_day date_str uuid now st) \<and>
           path_join (database_url st) (fst f) \<noteq> SNAPSHOT_DB st)}"
    unfolding set_files_delete_old_database l
    by (simp add: delete_log_file_def reset_db_def Let_def)
  finally show "set (files (reset_db_on_new_day date_str uuid now st)) =
     {f \<in> set (files (reset_db date_str uuid now st)).
        \<not> (is_db_file (fst f) \<and> 1 * week_seconds < now - snd f \<and>
           path_join (database_url st) (fst f) \<noteq>
             LIVE_DB (reset_db_on_new_day date_str uuid now st) \<and>
           path_join (database_url st) (fst f) \<noteq> SNAPSHOT_DB st)}" .
next
  assume a: "LIVE_DB st = path_join (database_url st) (get_new_db_name date0 uuid0) \<and>
    length date_str = length date0"
  then have "(LIVE_DB (reset_db_on_new_day date_str uuid now st) = LIVE_DB st) =
      (date_str = date0 \<and> take 8 uuid = take 8 uuid0)"
    by (simp only: live_after_rotation new_name_eq_iff stamp_eq_iff)
  then show "LIVE_DB (reset_db_on_new_day date_str uuid now st) \<noteq> LIVE_DB st \<longleftrightarrow>
       date_str \<noteq> date0 \<or> take 8 uuid \<noteq> take 8 uuid0"
    by blast
qed

lemmas rot_defs = reset_db_on_new_day_def delete_old_database_def delete_log_file_def reset_db_def
  is_deleted_def is_db_file_def get_new_db_name_def path_join_def week_seconds_def Let_def

theorem rotation_step_witness:
  "LIVE_DB \<lparr>database_url = ''database'', LIVE_DB = ''database/2026-11-03_0f8fad5b_ais_db.db'',
      SNAPSHOT_DB = ''database/ais_snapshot.db'',
      files = [(''2026-10-20_7c9e6679_ais_db.db'', 100), (''2026-11-03_0f8fad5b_ais_db.db'', 990000),
               (''ais_snapshot.db'', 200), (''notes.txt'', 300)],
      log_file_exists = True\<rparr>
     = path_join ''database'' (get_new_db_name ''2026-11-03'' ''0f8fad5b-d9cb-469f-a165-70867728950e'') \<and>
   length ''2026-11-04'' = length ''2026-11-03'' \<and>
   LIVE_DB (reset_db_on_new_day ''2026-11-04'' ''1b4e28ba-2fa1-41d2-883f-0016d3cca427'' 1000000
      \<lparr>database_url = ''database'', LIVE_DB = ''database/2026-11-03_0f8fad5b_ais_db.db'',
       SNAPSHOT_DB = ''database/ais_snapshot.db'',
       files = [(''2026-10-20_7c9e6679_ais_db.db'', 100), (''2026-11-03_0f8fad5b_ais_db.db'', 990000),
                (''ais_snapshot.db'', 200), (''notes.txt'', 300)],
       log_file_exists = True\<rparr>) = ''database/2026-11-04_1b4e28ba_ais_db.db'' \<and>
   LIVE_DB (reset_db_on_new_day ''2026-11-04'' ''1b4e28ba-2fa1-41d2-883f-0016d3cca427'' 1000000
      \<lparr>database_url = ''database'', LIVE_DB = ''database/2026-11-03_0f8fad5b_ais_db.db'',
       SNAPSHOT_DB = ''database/ais_snapshot.db'',
       files = [(''2026-10-20_7c9e6679_ais_db.db'', 100), (''2026-11-03_0f8fad5b_ais_db.db'', 990000),
                (''ais_snapshot.db'', 200), (''notes.txt'', 300)],
       log_file_exists = True\<rparr>) \<noteq> ''database/2026-11-03_0f8fad5b_ais_db.db'' \<and>
   files (reset_db_on_new_day ''2026-11-04'' ''1b4e28ba-2fa1-41d2-883f-0016d3cca427'' 1000000
      \<lparr>database_url = ''database'', LIVE_DB = ''database/2026-11-03_0f8fad5b_ais_db.db'',
       SNAPSHOT_DB = ''database/ais_snapshot.db'',
       files = [(''2026-10-20_7c9e6679_ais_db.db'', 100), (''2026-11-03_0f8fad5b_ais_db.db'', 990000),
                (''ais_snapshot.db'', 200), (''notes.txt'', 300)],
       log_file_exists = True\<rparr>)
     = [(''2026-11-03_0f8fad5b_ais_db.db'', 990000), (''ais_snapshot.db'', 200), (''notes.txt'', 300),
        (''2026-11-04_1b4e28ba_ais_db.db'', 1000000)]"
proof -
  let ?st = "\<lparr>database_url = ''database'', LIVE_DB = ''database/2026-11-03_0f8fad5b_ais_db.db'',
       SNAPSHOT_DB = ''database/ais_snapshot.db'',
       files = [(''2026-10-20_7c9e6679_ais_db.db'', 100), (''2026-11-03_0f8fad5b_ais_db.db'', 990000),
                (''ais_snapshot.db'', 200), (''notes.txt'', 300)],
       log_file_exists = True\<rparr>"
  let ?new = "reset_db_on_new_day ''2026-11-04'' ''1b4e28ba-2fa1-41d2-883f-0016d3cca427'' 1000000 ?st"
  note t = rotation_step [of "''2026-11-04''" "''1b4e28ba-2fa1-41d2-883f-0016d3cca427''" 1000000
      ?st "''2026-11-03''" "''0f8fad5b-d9cb-469f-a165-70867728950e''" 1]
  have p: "LIVE_DB ?st =
      path_join ''database'' (get_new_db_name ''2026-11-03'' ''0f8fad5b-d9cb-469f-a165-70867728950e'')"
    by (simp add: get_new_db_name_def path_join_def)
  have n: "length ''2026-11-04'' = length ''2026-11-03''" by simp
  from t have "LIVE_DB ?new =
      path_join (database_url ?st)
        (get_new_db_name ''2026-11-04'' ''1b4e28ba-2fa1-41d2-883f-0016d3cca427'')"
    by (rule conjunct1)
  then have l: "LIVE_DB ?new = ''database/2026-11-04_1b4e28ba_ais_db.db''"
    by (simp add: get_new_db_name_def path_join_def)
  have p': "LIVE_DB ?st = path_join (database_url ?st)
      (get_new_db_name ''2026-11-03'' ''0f8fad5b-d9cb-469f-a165-70867728950e'')"
    by (simp add: get_new_db_name_def path_join_def)
  note t [THEN conjunct2, THEN conjunct1, THEN mp, OF conjI [OF p' n]]
  then have "LIVE_DB ?new \<noteq> LIVE_DB ?st"
    by (simp only: not_False_eq_True list.inject char.inject simp_thms)
  then have d: "LIVE_DB ?new \<noteq> ''database/2026-11-03_0f8fad5b_ais_db.db''"
    by simp
  have f: "files ?new =
      [(''2026-11-03_0f8fad5b_ais_db.db'', 990000), (''ais_snapshot.db'', 200), (''notes.txt'', 300),
       (''2026-11-04_1b4e28ba_ais_db.db'', 1000000)]"
    by (simp add: rot_defs)
  from p n l d f show ?thesis by blast
qed

text \<open>The new handle is not always distinct from the prior one: two rotations on one day
  whose uuids share their first 8 characters give the same path.\<close>

theorem rotation_same_stamp_counterexample:
  "LIVE_DB (reset_db_on_new_day ''2026-11-04'' ''1b4e28ba-9c3f-4d7a-8e21-5f0a6b7c8d9e'' 1000120
      (reset_db_on_new_day ''2026-11-04'' ''1b4e28ba-2fa1-41d2-883f-0016d3cca427'' 1000000
        \<lparr>database_url = ''database'',
         LIVE_DB = ''database/2026-11-03_0f8fad5b_ais_db.db'',
         SNAPSHOT_DB = ''database/ais_snapshot.db'',
         files = [(''2026-11-03_0f8fad5b_ais_db.db'', 990000)],
         log_file_exists = True\<rparr>))
   = LIVE_DB (reset_db_on_new_day ''2026-11-04'' ''1b4e28ba-2fa1-41d2-883f-0016d3cca427'' 1000000
        \<lparr>database_url = ''database'',
         LIVE_DB = ''database/2026-11-03_0f8fad5b_ais_db.db'',
         SNAPSHOT_DB = ''database/ais_snapshot.db'',
         files = [(''2026-11-03_0f8fad5b_ais_db.db'', 990000)],
         log_file_exists = True\<rparr>)"
  by (simp add: rot_defs)

end
